theory Spec2Isabelle
  imports Complex_Main "HOL-Library.Multiset"
begin

section \<open>The live market-data server (\<^verbatim>\<open>live_data_server.py\<close>)\<close>

text \<open>
  The server answers a charting front end: \<^verbatim>\<open>/search\<close> filters a fixed symbol
  catalog, \<^verbatim>\<open>/history\<close> proxies a market-data provider, keeps the bars inside the
  requested range, and caches success responses for 300 seconds in two class-level
  dictionaries. The embedding below follows \<^verbatim>\<open>handle_search\<close> and
  \<^verbatim>\<open>handle_history\<close> statement by statement.

  Conventions of the embedding:
  \<^item> Python's unbounded integers are \<open>int\<close>; the readings of the clock
    (\<^verbatim>\<open>time.time()\<close>) and the finite floats that the code converts to integers are
    exact rationals (\<open>rat\<close>).
  \<^item> Prices are values of an arbitrary type \<open>'f\<close> (the provider's floats) and
    Python's \<^verbatim>\<open>round(x, 2)\<close> on them is a parameter: its floating-point result is
    not modelled.
  \<^item> A string is a list of 8-bit characters, the bytes of the Python string; upper
    case is that of the ASCII letters.
  \<^item> An exception that \<^verbatim>\<open>except Exception\<close> catches is a value of
    \<open>py_exception\<close>; a computation that may raise returns \<open>py_exception + 'a\<close>.
  \<^item> The query parameters are taken after parsing (\<^verbatim>\<open>symbol\<close>,
    \<^verbatim>\<open>resolution\<close> as strings, \<^verbatim>\<open>from_ts\<close>, \<^verbatim>\<open>to_ts\<close>, \<^verbatim>\<open>limit\<close> as
    integers); printing to the console is left out, but the expressions a
    \<^verbatim>\<open>print\<close> evaluates are kept where they can raise.
\<close>

subsection \<open>Python values\<close>

datatype py_exception = KeyError string | OverflowError string | Raised string

text \<open>\<^verbatim>\<open>str(e)\<close>: a \<^verbatim>\<open>KeyError\<close> prints the \<^verbatim>\<open>repr\<close> of its key, the others
  their message.\<close>

fun str_exception :: "py_exception \<Rightarrow> string" where
  "str_exception (KeyError k) = CHR 0x27 # k @ [CHR 0x27]"
| "str_exception (OverflowError m) = m"
| "str_exception (Raised m) = m"

text \<open>\<^verbatim>\<open>int(x)\<close> on a finite float truncates toward zero.\<close>

definition py_int :: "rat \<Rightarrow> int" where
  "py_int q = (if 0 \<le> q then \<lfloor>q\<rfloor> else \<lceil>q\<rceil>)"

text \<open>\<^verbatim>\<open>str(n)\<close> on an integer: decimal digits, most significant first, no leading
  zero, a minus sign for a negative number.\<close>

definition digit_char :: "nat \<Rightarrow> char" where
  "digit_char d = char_of (48 + d)"

function str_nat :: "nat \<Rightarrow> string" where
  "str_nat n = (if n < 10 then [digit_char n] else str_nat (n div 10) @ [digit_char (n mod 10)])"
  by pat_completeness auto
termination
  by (relation "measure (\<lambda>n. n)") auto

declare str_nat.simps [simp del]

definition str_int :: "int \<Rightarrow> string" where
  "str_int i = (if i < 0 then CHR ''-'' # str_nat (nat (- i)) else str_nat (nat i))"

text \<open>Reading a string of decimal digits back, to show that \<open>str_nat\<close> loses nothing.\<close>

definition digits_value :: "string \<Rightarrow> nat" where
  "digits_value s = foldl (\<lambda>a c. 10 * a + (of_char c - 48)) 0 s"



text \<open>\<^verbatim>\<open>q in s\<close> on strings: \<open>q\<close> occurs in \<open>s\<close> as a contiguous substring.\<close>

fun starts_with :: "string \<Rightarrow> string \<Rightarrow> bool" where
  "starts_with [] s = True"
| "starts_with (c # q) [] = False"
| "starts_with (c # q) (d # s) = (c = d \<and> starts_with q s)"

fun py_in :: "string \<Rightarrow> string \<Rightarrow> bool" where
  "py_in q [] = (q = [])"
| "py_in q (d # s) = (starts_with q (d # s) \<or> py_in q s)"


subsection \<open>Symbol search\<close>








subsection \<open>History: data\<close>

text \<open>The \<^verbatim>\<open>Volume\<close> cell of a provider row: the column may be absent from the
  row, and a float may be not-a-number, infinite or finite.\<close>

datatype volume_cell = VolAbsent | VolNaN | VolInf | VolNum rat

text \<open>One row of the provider's table: \<^verbatim>\<open>index.timestamp()\<close> in seconds, the four
  price cells (\<open>None\<close> when the row has no such column) and the volume cell.\<close>

record 'f row =
  index_timestamp :: rat
  col_Open :: "'f option"
  col_High :: "'f option"
  col_Low :: "'f option"
  col_Close :: "'f option"
  col_Volume :: volume_cell

record 'f bar =
  bar_time :: int
  bar_open :: 'f
  bar_high :: 'f
  bar_low :: 'f
  bar_close :: 'f
  bar_volume :: int

text \<open>The JSON bodies of \<^verbatim>\<open>/history\<close>: \<^verbatim>\<open>{"s": "ok", "t": .., "o": .., "h": ..,
  "l": .., "c": .., "v": ..}\<close>, \<^verbatim>\<open>{"s": "no_data"}\<close> and
  \<^verbatim>\<open>{"s": "error", "errmsg": ..}\<close>.\<close>

datatype 'f response =
    Ok "int list" "'f list" "'f list" "'f list" "'f list" "int list"
  | No_data
  | Error string

text \<open>\<^verbatim>\<open>send_json_response\<close> always answers with status 200.\<close>

type_synonym 'f http_response = "nat \<times> 'f response"

definition send_json_response :: "'f response \<Rightarrow> 'f http_response" where
  "send_json_response data = (200, data)"

text \<open>The two class-level dictionaries.\<close>

record 'f server_state =
  data_cache :: "string \<rightharpoonup> 'f response"
  cache_expiry :: "string \<rightharpoonup> rat"

definition initial_state :: "'f server_state" where
  "initial_state = \<lparr>data_cache = Map.empty, cache_expiry = Map.empty\<rparr>"

text \<open>What the handler takes from the Python runtime: \<^verbatim>\<open>round(x, 2)\<close> on a price,
  and whether \<^verbatim>\<open>datetime.fromtimestamp(x)\<close> raises on a timestamp (its result is
  only printed).\<close>

record 'f python =
  round2 :: "'f \<Rightarrow> 'f"
  fromtimestamp :: "rat \<Rightarrow> py_exception option"

text \<open>The provider, \<^verbatim>\<open>yf.Ticker(symbol).history(period=.., interval=..)\<close>: it raises
  or returns a table, here the list of its rows. A table that has rows is taken to have
  columns, so that \<^verbatim>\<open>hist.empty\<close> is \<open>hist = []\<close>, and its cells to hold floats.\<close>

type_synonym 'f provider = "string \<Rightarrow> string \<Rightarrow> string \<Rightarrow> py_exception + 'f row list"

text \<open>What one request does: the response sent, the dictionaries afterwards, and the
  calls made to the provider, each as (symbol, period, interval).\<close>

record 'f outcome =
  reply :: "'f http_response"
  server :: "'f server_state"
  upstream :: "(string \<times> string \<times> string) list"

subsection \<open>History: the handler\<close>

definition cache_key :: "string \<Rightarrow> string \<Rightarrow> int \<Rightarrow> int \<Rightarrow> string" where
  "cache_key symbol resolution from_ts to_ts =
     symbol @ ''_'' @ resolution @ ''_'' @ str_int from_ts @ ''_'' @ str_int to_ts"

text \<open>The cache test of the handler: \<^verbatim>\<open>cache_key in self.data_cache and current_time <
  self.cache_expiry.get(cache_key, 0)\<close>, giving \<^verbatim>\<open>self.data_cache[cache_key]\<close>.\<close>

definition cached :: "'f server_state \<Rightarrow> string \<Rightarrow> rat \<Rightarrow> 'f response option" where
  "cached st key current_time =
     (case data_cache st key of
        None \<Rightarrow> None
      | Some data \<Rightarrow>
          if current_time < (case cache_expiry st key of None \<Rightarrow> 0 | Some e \<Rightarrow> e)
          then Some data else None)"

text \<open>The period and the interval the provider is asked for.\<close>

definition period_interval :: "string \<Rightarrow> string \<times> string" where
  "period_interval resolution =
     (if resolution = ''1D'' then (''2y'', ''1d'')
      else if resolution \<in> set [''60'', ''240''] then (''60d'', ''1h'')
      else (''7d'', ''5m''))"

text \<open>\<^verbatim>\<open>int(row['Volume']) if 'Volume' in row and pd.notna(row['Volume']) else 0\<close>.\<close>

fun volume_of :: "volume_cell \<Rightarrow> py_exception + int" where
  "volume_of VolAbsent = Inr 0"
| "volume_of VolNaN = Inr 0"
| "volume_of VolInf = Inl (OverflowError ''cannot convert float infinity to integer'')"
| "volume_of (VolNum q) = Inr (py_int q)"

text \<open>\<^verbatim>\<open>round(float(row[name]), 2)\<close>: a missing column raises \<^verbatim>\<open>KeyError\<close>.\<close>

definition price_of :: "'f python \<Rightarrow> string \<Rightarrow> 'f option \<Rightarrow> py_exception + 'f" where
  "price_of py name cell = (case cell of None \<Rightarrow> Inl (KeyError name) | Some x \<Rightarrow> Inr (round2 py x))"

text \<open>The dictionary built for one row inside the range, its entries evaluated in the
  order of the source.\<close>

definition make_bar :: "'f python \<Rightarrow> int \<Rightarrow> 'f row \<Rightarrow> py_exception + 'f bar" where
  "make_bar py timestamp r =
     (case price_of py ''Open'' (col_Open r) of Inl e \<Rightarrow> Inl e | Inr op \<Rightarrow>
     (case price_of py ''High'' (col_High r) of Inl e \<Rightarrow> Inl e | Inr hi \<Rightarrow>
     (case price_of py ''Low'' (col_Low r) of Inl e \<Rightarrow> Inl e | Inr lo \<Rightarrow>
     (case price_of py ''Close'' (col_Close r) of Inl e \<Rightarrow> Inl e | Inr cl \<Rightarrow>
     (case volume_of (col_Volume r) of Inl e \<Rightarrow> Inl e | Inr vol \<Rightarrow>
        Inr \<lparr>bar_time = timestamp * 1000, bar_open = op, bar_high = hi, bar_low = lo,
             bar_close = cl, bar_volume = vol\<rparr>)))))"

text \<open>The loop over \<^verbatim>\<open>hist.iterrows()\<close>: a row outside the range is skipped before
  any of its cells is read; the first exception ends the loop.\<close>

fun build_bars :: "'f python \<Rightarrow> int \<Rightarrow> int \<Rightarrow> 'f row list \<Rightarrow> py_exception + 'f bar list" where
  "build_bars py from_ts to_ts [] = Inr []"
| "build_bars py from_ts to_ts (r # rows) =
     (let timestamp = py_int (index_timestamp r) in
      if from_ts \<le> timestamp \<and> timestamp \<le> to_ts
      then (case make_bar py timestamp r of
              Inl e \<Rightarrow> Inl e
            | Inr b \<Rightarrow> (case build_bars py from_ts to_ts rows of
                         Inl e \<Rightarrow> Inl e
                       | Inr bars \<Rightarrow> Inr (b # bars)))
      else build_bars py from_ts to_ts rows)"

definition ok_response :: "'f bar list \<Rightarrow> 'f response" where
  "ok_response bars =
     Ok (map bar_time bars) (map bar_open bars) (map bar_high bars) (map bar_low bars)
        (map bar_close bars) (map bar_volume bars)"

text \<open>The \<^verbatim>\<open>except Exception as e\<close> branch.\<close>

definition failed ::
  "py_exception \<Rightarrow> 'f server_state \<Rightarrow> (string \<times> string \<times> string) list \<Rightarrow> 'f outcome" where
  "failed e st calls =
     \<lparr>reply = send_json_response (Error (str_exception e)), server = st, upstream = calls\<rparr>"

text \<open>\<^verbatim>\<open>handle_history\<close>. The first \<^verbatim>\<open>print\<close> evaluates
  \<^verbatim>\<open>datetime.fromtimestamp\<close> on both bounds before the cache is looked at (the same
  two calls after the cache test cannot raise any more); the last \<^verbatim>\<open>print\<close>
  evaluates it on the time of the last bar, after the response has been stored and before
  it is sent.\<close>

definition handle_history ::
  "'f python \<Rightarrow> 'f provider \<Rightarrow> 'f server_state \<Rightarrow> rat \<Rightarrow> string \<Rightarrow> string \<Rightarrow> int \<Rightarrow> int
     \<Rightarrow> 'f outcome" where
  "handle_history py history st current_time symbol resolution from_ts to_ts =
     (case fromtimestamp py (of_int from_ts) of Some e \<Rightarrow> failed e st [] | None \<Rightarrow>
     (case fromtimestamp py (of_int to_ts) of Some e \<Rightarrow> failed e st [] | None \<Rightarrow>
     (case cached st (cache_key symbol resolution from_ts to_ts) current_time of
        Some data \<Rightarrow> \<lparr>reply = send_json_response data, server = st, upstream = []\<rparr>
      | None \<Rightarrow>
          (let period = fst (period_interval resolution);
               interval = snd (period_interval resolution);
               calls = [(symbol, period, interval)]
           in (case history symbol period interval of
                 Inl e \<Rightarrow> failed e st calls
               | Inr hist \<Rightarrow>
                   if hist = []
                   then \<lparr>reply = send_json_response No_data, server = st, upstream = calls\<rparr>
                   else (case build_bars py from_ts to_ts hist of
                           Inl e \<Rightarrow> failed e st calls
                         | Inr unsorted \<Rightarrow>
                             (let bars = sort_key bar_time unsorted;
                                  response = ok_response bars;
                                  st' = st\<lparr>data_cache :=
                                             (data_cache st)
                                               (cache_key symbol resolution from_ts to_ts \<mapsto>
                                                  response),
                                           cache_expiry :=
                                             (cache_expiry st)
                                               (cache_key symbol resolution from_ts to_ts \<mapsto>
                                                  current_time + 300)\<rparr>
                              in (case (if bars = [] then None
                                        else fromtimestamp py
                                               (of_int (bar_time (last bars)) / 1000)) of
                                    Some e \<Rightarrow> failed e st' calls
                                  | None \<Rightarrow>
                                      \<lparr>reply = send_json_response response, server = st',
                                       upstream = calls\<rparr>))))))))"

text \<open>The dictionaries start empty and only \<^verbatim>\<open>handle_history\<close> writes them: the
  states the server can be in are those reached from the empty one by requests, each
  with its own clock reading and its own provider answer.\<close>

inductive reachable :: "'f python \<Rightarrow> 'f server_state \<Rightarrow> bool" for py :: "'f python" where
  start: "reachable py initial_state"
| request:
    "reachable py st \<Longrightarrow>
     reachable py (server (handle_history py history st current_time symbol resolution from_ts to_ts))"

subsection \<open>Responses and ranges\<close>

text \<open>The three shapes of a response, the \<^verbatim>\<open>"t"\<close> array of a success response, and
  whether its six arrays have one length.\<close>

fun is_ok :: "'f response \<Rightarrow> bool" where
  "is_ok (Ok ts os hs ls cs vs) = True"
| "is_ok No_data = False"
| "is_ok (Error m) = False"

fun times :: "'f response \<Rightarrow> int list" where
  "times (Ok ts os hs ls cs vs) = ts"
| "times No_data = []"
| "times (Error m) = []"

fun columns_agree :: "'f response \<Rightarrow> bool" where
  "columns_agree (Ok ts os hs ls cs vs) =
     (length os = length ts \<and> length hs = length ts \<and> length ls = length ts \<and>
      length cs = length ts \<and> length vs = length ts)"
| "columns_agree No_data = True"
| "columns_agree (Error m) = True"

text \<open>Times in milliseconds that are whole seconds inside the requested range.\<close>

definition in_window :: "int \<Rightarrow> int \<Rightarrow> int list \<Rightarrow> bool" where
  "in_window from_ts to_ts ts =
     list_all (\<lambda>ms. ms mod 1000 = 0 \<and> from_ts \<le> ms div 1000 \<and> ms div 1000 \<le> to_ts) ts"

text \<open>The times of the rows that the range keeps, in milliseconds and in order.\<close>

definition kept_times :: "int \<Rightarrow> int \<Rightarrow> 'f row list \<Rightarrow> int list" where
  "kept_times from_ts to_ts hist =
     sort (map (\<lambda>r. py_int (index_timestamp r) * 1000)
            (filter (\<lambda>r. from_ts \<le> py_int (index_timestamp r) \<and>
                          py_int (index_timestamp r) \<le> to_ts) hist))"

subsection \<open>Example inputs\<close>

text \<open>Rounding to two decimals on exact rationals, half to even: the decimal that
  \<^verbatim>\<open>round(x, 2)\<close> aims at, used for \<open>round2\<close> in the examples.\<close>

definition round_half_even :: "rat \<Rightarrow> int" where
  "round_half_even q =
     (let f = \<lfloor>q\<rfloor>; r = q - of_int f
      in if r < 1 / 2 then f else if 1 / 2 < r then f + 1 else if even f then f else f + 1)"

definition round2_exact :: "rat \<Rightarrow> rat" where
  "round2_exact q = of_int (round_half_even (q * 100)) / 100"

text \<open>A runtime whose \<^verbatim>\<open>datetime.fromtimestamp\<close> accepts every timestamp.\<close>

definition always_valid :: "rat \<Rightarrow> py_exception option" where
  "always_valid x = None"

definition python0 :: "rat python" where
  "python0 = \<lparr>round2 = round2_exact, fromtimestamp = always_valid\<rparr>"

text \<open>A row with one price in all four columns, and providers that answer every call
  with the same table or the same exception.\<close>

definition flat_row :: "rat \<Rightarrow> rat \<Rightarrow> volume_cell \<Rightarrow> rat row" where
  "flat_row ts price vol =
     \<lparr>index_timestamp = ts, col_Open = Some price, col_High = Some price, col_Low = Some price,
      col_Close = Some price, col_Volume = vol\<rparr>"

definition three_rows :: "rat provider" where
  "three_rows symbol period interval =
     Inr [flat_row 50 (10123 / 1000) (VolNum 7), flat_row 20 (5 / 2) VolNaN,
          flat_row 200 1 (VolNum 1)]"

definition no_rows :: "rat provider" where
  "no_rows symbol period interval = Inr []"

definition silent_failure :: "rat provider" where
  "silent_failure symbol period interval = Inl (Raised [])"


definition infinite_volume :: "rat provider" where
  "infinite_volume symbol period interval = Inr [flat_row 50 1 VolInf]"

section \<open>Symbol search\<close>

lemma starts_with_iff: "starts_with q s \<longleftrightarrow> (\<exists>ys. s = q @ ys)"
  by (induction q s rule: starts_with.induct) auto

text \<open>\<open>py_in\<close> is the substring relation.\<close>

lemma py_in_iff: "py_in q s \<longleftrightarrow> (\<exists>xs ys. s = xs @ q @ ys)"
proof (induction s)
  case Nil
  then show ?case by simp
next
  case (Cons d s)
  show ?case
  proof
    assume "py_in q (d # s)"
    then consider "starts_with q (d # s)" | "py_in q s" by auto
    then show "\<exists>xs ys. d # s = xs @ q @ ys"
    proof cases
      case 1
      then obtain ys where "d # s = q @ ys" by (auto simp: starts_with_iff)
      then have "d # s = [] @ q @ ys" by simp
      then show ?thesis by blast
    next
      case 2
      then obtain xs ys where "s = xs @ q @ ys" using Cons.IH by blast
      then have "d # s = (d # xs) @ q @ ys" by simp
      then show ?thesis by blast
    qed
  next
    assume "\<exists>xs ys. d # s = xs @ q @ ys"
    then obtain xs ys where e: "d # s = xs @ q @ ys" by blast
    show "py_in q (d # s)"
    proof (cases xs)
      case Nil
      with e have "starts_with q (d # s)" by (auto simp: starts_with_iff)
      then show ?thesis by simp
    next
      case (Cons x xs')
      with e have "s = xs' @ q @ ys" by simp
      then have "py_in q s" using Cons.IH by blast
      then show ?thesis by simp
    qed
  qed
qed










section \<open>The cache key\<close>

text \<open>The key is the text \<^verbatim>\<open>f"{symbol}_{resolution}_{from_ts}_{to_ts}"\<close>. A symbol or a
  resolution may contain underscores, so two requests that differ in them can share a key;
  the two numbers are its last two fields and are read back from it without ambiguity.\<close>

lemma of_char_digit: "d < 10 \<Longrightarrow> (of_char (digit_char d) :: nat) = 48 + d"
  by (simp add: digit_char_def)

lemma digit_char_not_underscore: "d < 10 \<Longrightarrow> digit_char d \<noteq> CHR ''_''"
proof
  assume d: "d < 10" and "digit_char d = CHR ''_''"
  then have "(of_char (digit_char d) :: nat) = of_char (CHR ''_'')" by simp
  with d show False by (simp add: of_char_digit)
qed

lemma digit_char_not_minus: "d < 10 \<Longrightarrow> digit_char d \<noteq> CHR ''-''"
proof
  assume d: "d < 10" and "digit_char d = CHR ''-''"
  then have "(of_char (digit_char d) :: nat) = of_char (CHR ''-'')" by simp
  with d show False by (simp add: of_char_digit)
qed

lemma str_nat_digits: "c \<in> set (str_nat n) \<Longrightarrow> \<exists>d<10. c = digit_char d"
proof (induction n rule: str_nat.induct)
  case (1 n)
  show ?case
  proof (cases "n < 10")
    case True
    with "1.prems" show ?thesis by (auto simp: str_nat.simps [of n])
  next
    case False
    with "1.prems" have "c \<in> set (str_nat (n div 10)) \<or> c = digit_char (n mod 10)"
      by (auto simp: str_nat.simps [of n])
    then show ?thesis
    proof
      assume "c \<in> set (str_nat (n div 10))"
      with False "1.IH" show ?thesis by simp
    next
      assume "c = digit_char (n mod 10)"
      moreover have "n mod 10 < 10" by simp
      ultimately show ?thesis by blast
    qed
  qed
qed

lemma str_nat_not_Nil: "str_nat n \<noteq> []"
  by (simp add: str_nat.simps [of n])

lemma digits_value_str_nat: "digits_value (str_nat n) = n"
proof (induction n rule: str_nat.induct)
  case (1 n)
  show ?case
  proof (cases "n < 10")
    case True
    then show ?thesis by (simp add: str_nat.simps [of n] digits_value_def of_char_digit)
  next
    case False
    with "1.IH" have "digits_value (str_nat (n div 10)) = n div 10" by simp
    moreover have "(of_char (digit_char (n mod 10)) :: nat) = 48 + n mod 10"
      by (simp add: of_char_digit)
    ultimately show ?thesis using False
      by (simp add: str_nat.simps [of n] digits_value_def)
  qed
qed

lemma str_nat_inj: "str_nat m = str_nat n \<Longrightarrow> m = n"
  using digits_value_str_nat by metis

lemma hd_str_nat_not_minus: "hd (str_nat n) \<noteq> CHR ''-''"
proof -
  have "hd (str_nat n) \<in> set (str_nat n)" using str_nat_not_Nil by simp
  then obtain d where "d < 10" "hd (str_nat n) = digit_char d" using str_nat_digits by blast
  then show ?thesis by (simp add: digit_char_not_minus)
qed

lemma str_int_inj: "str_int i = str_int j \<Longrightarrow> i = j"
proof -
  assume e: "str_int i = str_int j"
  have neg: "i < 0 \<longleftrightarrow> hd (str_int i) = CHR ''-''" for i
    using hd_str_nat_not_minus by (simp add: str_int_def)
  from e have s: "i < 0 \<longleftrightarrow> j < 0" using neg by simp
  show "i = j"
  proof (cases "i < 0")
    case True
    with s e have "str_nat (nat (- i)) = str_nat (nat (- j))" by (simp add: str_int_def)
    then have "nat (- i) = nat (- j)" by (rule str_nat_inj)
    with True s show ?thesis by simp
  next
    case False
    with s e have "str_nat (nat i) = str_nat (nat j)" by (simp add: str_int_def)
    then have "nat i = nat j" by (rule str_nat_inj)
    with False s show ?thesis by simp
  qed
qed

lemma str_int_no_underscore: "CHR ''_'' \<notin> set (str_int i)"
proof -
  have "CHR ''_'' \<notin> set (str_nat n)" for n
  proof
    assume "CHR ''_'' \<in> set (str_nat n)"
    then obtain d where "d < 10" "CHR ''_'' = digit_char d" using str_nat_digits by blast
    then show False using digit_char_not_underscore [of d] by simp
  qed
  then show ?thesis by (simp add: str_int_def)
qed

lemma last_field:
  "xs @ c # a = ys @ c # b \<Longrightarrow> c \<notin> set a \<Longrightarrow> c \<notin> set b \<Longrightarrow> xs = ys \<and> a = b"
proof (induction xs arbitrary: ys)
  case Nil
  show ?case
  proof (cases ys)
    case Nil
    with Nil.prems(1) show ?thesis by simp
  next
    case (Cons y ys')
    with Nil.prems(1) have "a = ys' @ c # b" by simp
    then have "c \<in> set a" by simp
    with Nil.prems(2) show ?thesis by simp
  qed
next
  case (Cons x xs)
  show ?case
  proof (cases ys)
    case Nil
    with Cons.prems(1) have "b = xs @ c # a" by simp
    then have "c \<in> set b" by simp
    with Cons.prems(3) show ?thesis by simp
  next
    case (Cons y ys')
    with Cons.prems(1) have xy: "x = y" and r: "xs @ c # a = ys' @ c # b" by simp_all
    from Cons.IH [OF r Cons.prems(2) Cons.prems(3)] have "xs = ys'" and "a = b" by simp_all
    with xy Cons show ?thesis by simp
  qed
qed

lemma cache_key_from_to:
  "cache_key s r f t = cache_key s' r' f' t' \<Longrightarrow> f = f' \<and> t = t'"
proof -
  assume e: "cache_key s r f t = cache_key s' r' f' t'"
  then have "(s @ ''_'' @ r @ ''_'' @ str_int f) @ CHR ''_'' # str_int t =
             (s' @ ''_'' @ r' @ ''_'' @ str_int f') @ CHR ''_'' # str_int t'"
    by (simp add: cache_key_def)
  from last_field [OF this str_int_no_underscore str_int_no_underscore]
  have 1: "s @ ''_'' @ r @ ''_'' @ str_int f = s' @ ''_'' @ r' @ ''_'' @ str_int f'"
    and 2: "str_int t = str_int t'"
    by simp_all
  from 1 have "(s @ ''_'' @ r) @ CHR ''_'' # str_int f = (s' @ ''_'' @ r') @ CHR ''_'' # str_int f'"
    by simp
  from last_field [OF this str_int_no_underscore str_int_no_underscore]
  have "str_int f = str_int f'" by simp
  with 2 show ?thesis by (simp add: str_int_inj)
qed

section \<open>History: one request\<close>

lemma upstream_cases:
  "upstream (handle_history py history st now symbol resolution f t) = [] \<or>
   upstream (handle_history py history st now symbol resolution f t) =
     [(symbol, fst (period_interval resolution), snd (period_interval resolution))]"
  by (simp add: handle_history_def failed_def Let_def split: option.split sum.split)

lemma reply_status: "fst (reply (handle_history py history st now symbol resolution f t)) = 200"
  by (simp add: handle_history_def failed_def send_json_response_def Let_def
      split: option.split sum.split)



lemma upstream_called:
  "upstream (handle_history py history st now symbol resolution f t) \<noteq> [] \<Longrightarrow>
     fromtimestamp py (of_int f) = None \<and> fromtimestamp py (of_int t) = None \<and>
     cached st (cache_key symbol resolution f t) now = None"
  by (simp add: handle_history_def failed_def split: option.splits)

lemma upstream_call:
  "upstream (handle_history py history st now symbol resolution f t) = [(symbol', period, interval)]
   \<Longrightarrow> period = fst (period_interval resolution) \<and> interval = snd (period_interval resolution)"
proof -
  assume u: "upstream (handle_history py history st now symbol resolution f t) =
               [(symbol', period, interval)]"
  with upstream_cases [of py history st now symbol resolution f t]
  have "[(symbol', period, interval)] =
        [(symbol, fst (period_interval resolution), snd (period_interval resolution))]"
    by (cases "upstream (handle_history py history st now symbol resolution f t) = []") simp_all
  then have "period = fst (period_interval resolution)"
    and "interval = snd (period_interval resolution)"
    by (simp_all only: list.inject prod.inject)
  then show ?thesis by (simp only: simp_thms)
qed

lemma handle_history_miss:
  "fromtimestamp py (of_int f) = None \<Longrightarrow> fromtimestamp py (of_int t) = None \<Longrightarrow>
   cached st (cache_key symbol resolution f t) now = None \<Longrightarrow>
   handle_history py history st now symbol resolution f t =
     (case history symbol (fst (period_interval resolution)) (snd (period_interval resolution)) of
        Inl e \<Rightarrow>
          failed e st
            [(symbol, fst (period_interval resolution), snd (period_interval resolution))]
      | Inr hist \<Rightarrow>
          if hist = []
          then \<lparr>reply = send_json_response No_data, server = st,
                upstream =
                  [(symbol, fst (period_interval resolution), snd (period_interval resolution))]\<rparr>
          else (case build_bars py f t hist of
                  Inl e \<Rightarrow>
                    failed e st
                      [(symbol, fst (period_interval resolution),
                        snd (period_interval resolution))]
                | Inr unsorted \<Rightarrow>
                    (case (if sort_key bar_time unsorted = [] then None
                           else fromtimestamp py
                                  (of_int (bar_time (last (sort_key bar_time unsorted))) / 1000)) of
                       Some e \<Rightarrow>
                         failed e
                           (st\<lparr>data_cache :=
                                 (data_cache st)
                                   (cache_key symbol resolution f t \<mapsto>
                                      ok_response (sort_key bar_time unsorted)),
                               cache_expiry :=
                                 (cache_expiry st)
                                   (cache_key symbol resolution f t \<mapsto> now + 300)\<rparr>)
                           [(symbol, fst (period_interval resolution),
                             snd (period_interval resolution))]
                     | None \<Rightarrow>
                         \<lparr>reply = send_json_response (ok_response (sort_key bar_time unsorted)),
                          server =
                            st\<lparr>data_cache :=
                                 (data_cache st)
                                   (cache_key symbol resolution f t \<mapsto>
                                      ok_response (sort_key bar_time unsorted)),
                               cache_expiry :=
                                 (cache_expiry st)
                                   (cache_key symbol resolution f t \<mapsto> now + 300)\<rparr>,
                          upstream =
                            [(symbol, fst (period_interval resolution),
                              snd (period_interval resolution))]\<rparr>)))"
  by (simp add: handle_history_def Let_def split: sum.split option.split)




text \<open>
  C5: when the provider is asked and returns a table without rows, the response is
  exactly \<^verbatim>\<open>{"s": "no_data"}\<close> (with status 200) and the two dictionaries are left
  as they were: no entry is created for the key of the request.
\<close>

theorem no_observations_no_data:
  "upstream (handle_history py history st now symbol resolution from_ts to_ts) =
     [(symbol, period, interval)] \<Longrightarrow>
   history symbol period interval = Inr [] \<Longrightarrow>
   reply (handle_history py history st now symbol resolution from_ts to_ts) = (200, No_data) \<and>
   server (handle_history py history st now symbol resolution from_ts to_ts) = st"
proof -
  assume called: "upstream (handle_history py history st now symbol resolution from_ts to_ts) =
      [(symbol, period, interval)]"
    and empty: "history symbol period interval = Inr []"
  from called have pi: "period = fst (period_interval resolution)"
      "interval = snd (period_interval resolution)"
    using upstream_call by blast+
  from called have
    "upstream (handle_history py history st now symbol resolution from_ts to_ts) \<noteq> []" by simp
  from upstream_called [OF this] have m: "fromtimestamp py (of_int from_ts) = None"
    "fromtimestamp py (of_int to_ts) = None"
    "cached st (cache_key symbol resolution from_ts to_ts) now = None" by simp_all
  show ?thesis
    using empty unfolding pi handle_history_miss [OF m]
    by (simp add: send_json_response_def)
qed

theorem no_observations_no_data_witness:
  "upstream (handle_history python0 no_rows initial_state 1000 ''AAPL'' ''1D'' 0 100) =
     [(''AAPL'', ''2y'', ''1d'')] \<and>
   no_rows ''AAPL'' ''2y'' ''1d'' = Inr [] \<and>
   reply (handle_history python0 no_rows initial_state 1000 ''AAPL'' ''1D'' 0 100) =
     (200, No_data) \<and>
   data_cache (server (handle_history python0 no_rows initial_state 1000 ''AAPL'' ''1D'' 0 100))
     (cache_key ''AAPL'' ''1D'' 0 100) = None"
proof -
  have u: "upstream (handle_history python0 no_rows initial_state 1000 ''AAPL'' ''1D'' 0 100) =
     [(''AAPL'', ''2y'', ''1d'')]"
    by code_simp
  have n: "no_rows ''AAPL'' ''2y'' ''1d'' = Inr []"
    by (simp add: no_rows_def)
  from no_observations_no_data [OF u n] show ?thesis
    using u n by (simp add: initial_state_def)
qed

text \<open>
  C4 (as stated: the error response carries a non-empty message). The message is
  \<^verbatim>\<open>str(e)\<close>, and an exception raised without arguments prints as the empty
  string: a provider that raises such an exception gets
  \<^verbatim>\<open>{"s": "error", "errmsg": ""}\<close>.
\<close>

theorem empty_error_message:
  "reply (handle_history python0 silent_failure initial_state 1000 ''AAPL'' ''1D'' 0 100) =
     (200, Error [])"
  by code_simp

text \<open>
  C4 (amended: the message is \<^verbatim>\<open>str(e)\<close>, which may be empty): an exception
  raised by the provider, or while the rows are turned into bars, is answered with
  \<^verbatim>\<open>{"s": "error", "errmsg": str(e)}\<close> and status 200, and the dictionaries are
  left as they were.
\<close>

theorem failure_is_error_reply:
  "upstream (handle_history py history st now symbol resolution from_ts to_ts) =
     [(symbol, period, interval)] \<Longrightarrow>
   history symbol period interval = Inl e \<or>
     (\<exists>hist. history symbol period interval = Inr hist \<and>
        build_bars py from_ts to_ts hist = Inl e) \<Longrightarrow>
   reply (handle_history py history st now symbol resolution from_ts to_ts) =
     (200, Error (str_exception e)) \<and>
   server (handle_history py history st now symbol resolution from_ts to_ts) = st"
proof -
  assume called: "upstream (handle_history py history st now symbol resolution from_ts to_ts) =
      [(symbol, period, interval)]"
    and raised: "history symbol period interval = Inl e \<or>
      (\<exists>hist. history symbol period interval = Inr hist \<and>
         build_bars py from_ts to_ts hist = Inl e)"
  from called have pi: "period = fst (period_interval resolution)"
      "interval = snd (period_interval resolution)"
    using upstream_call by blast+
  from called have
    "upstream (handle_history py history st now symbol resolution from_ts to_ts) \<noteq> []" by simp
  from upstream_called [OF this] have m: "fromtimestamp py (of_int from_ts) = None"
    "fromtimestamp py (of_int to_ts) = None"
    "cached st (cache_key symbol resolution from_ts to_ts) now = None" by simp_all
  from raised show ?thesis
  proof
    assume "history symbol period interval = Inl e"
    then show ?thesis unfolding pi handle_history_miss [OF m]
      by (simp add: failed_def send_json_response_def)
  next
    assume "\<exists>hist. history symbol period interval = Inr hist \<and> build_bars py from_ts to_ts hist = Inl e"
    then obtain hist where h: "history symbol period interval = Inr hist"
      and b: "build_bars py from_ts to_ts hist = Inl e" by blast
    from b have "hist \<noteq> []" by auto
    with h b show ?thesis unfolding pi handle_history_miss [OF m]
      by (simp add: failed_def send_json_response_def)
  qed
qed

theorem failure_is_error_reply_witness:
  "upstream (handle_history python0 infinite_volume initial_state 1000 ''AAPL'' ''1D'' 0 100) =
     [(''AAPL'', ''2y'', ''1d'')] \<and>
   infinite_volume ''AAPL'' ''2y'' ''1d'' = Inr [flat_row 50 1 VolInf] \<and>
   build_bars python0 0 100 [flat_row 50 1 VolInf] =
     Inl (OverflowError ''cannot convert float infinity to integer'') \<and>
   reply (handle_history python0 infinite_volume initial_state 1000 ''AAPL'' ''1D'' 0 100) =
     (200, Error ''cannot convert float infinity to integer'')"
proof -
  have u: "upstream (handle_history python0 infinite_volume initial_state 1000 ''AAPL'' ''1D'' 0 100) =
     [(''AAPL'', ''2y'', ''1d'')]"
    by code_simp
  have n: "infinite_volume ''AAPL'' ''2y'' ''1d'' = Inr [flat_row 50 1 VolInf]"
    by (simp add: infinite_volume_def)
  have b: "build_bars python0 0 100 [flat_row 50 1 VolInf] =
     Inl (OverflowError ''cannot convert float infinity to integer'')"
    by code_simp
  from n b have "infinite_volume ''AAPL'' ''2y'' ''1d'' =
       Inl (OverflowError ''cannot convert float infinity to integer'') \<or>
     (\<exists>hist. infinite_volume ''AAPL'' ''2y'' ''1d'' = Inr hist \<and>
        build_bars python0 0 100 hist =
          Inl (OverflowError ''cannot convert float infinity to integer''))"
    by blast
  from failure_is_error_reply [OF u this] show ?thesis
    using u n b by simp
qed




section \<open>History: the cache over time\<close>

lemma make_bar_time: "make_bar py ts r = Inr b \<Longrightarrow> bar_time b = ts * 1000"
  by (auto simp: make_bar_def split: sum.splits)

lemma build_bars_times:
  "build_bars py f t rows = Inr bars \<Longrightarrow>
     map bar_time bars =
       map (\<lambda>r. py_int (index_timestamp r) * 1000)
         (filter (\<lambda>r. f \<le> py_int (index_timestamp r) \<and> py_int (index_timestamp r) \<le> t) rows)"
proof (induction rows arbitrary: bars)
  case Nil
  then show ?case by simp
next
  case (Cons r rows)
  show ?case
  proof (cases "f \<le> py_int (index_timestamp r) \<and> py_int (index_timestamp r) \<le> t")
    case False
    with Cons.prems have "build_bars py f t rows = Inr bars" by (simp add: Let_def)
    from Cons.IH [OF this] False show ?thesis by simp
  next
    case True
    with Cons.prems obtain b0 bs where
      m: "make_bar py (py_int (index_timestamp r)) r = Inr b0" and
      rest: "build_bars py f t rows = Inr bs" and bars: "bars = b0 # bs"
      by (auto simp: Let_def split: sum.splits)
    from Cons.IH [OF rest] make_bar_time [OF m] True bars show ?thesis by simp
  qed
qed

lemma times_ok_response: "times (ok_response bars) = map bar_time bars"
  by (simp add: ok_response_def)

lemma fresh_times:
  "build_bars py f t hist = Inr unsorted \<Longrightarrow>
     times (ok_response (sort_key bar_time unsorted)) = kept_times f t hist"
proof -
  assume b: "build_bars py f t hist = Inr unsorted"
  have "map bar_time (sort_key bar_time unsorted) = sort (map bar_time unsorted)"
    by (rule properties_for_sort [symmetric]) (simp_all add: sorted_sort_key)
  with build_bars_times [OF b] show ?thesis
    by (simp add: times_ok_response kept_times_def)
qed

lemma kept_times_sorted: "sorted (kept_times f t hist)"
  by (simp add: kept_times_def)

lemma kept_times_in_window: "in_window f t (kept_times f t hist)"
  by (auto simp: in_window_def kept_times_def list_all_iff)

lemma fresh_is_ok: "is_ok (ok_response bars) \<and> columns_agree (ok_response bars)"
  by (simp add: ok_response_def)

lemma cached_Some: "cached st key now = Some v \<Longrightarrow> data_cache st key = Some v"
  by (simp add: cached_def split: option.splits if_splits)

text \<open>What a request can do to the dictionaries: nothing, or store a fresh success response.\<close>

lemma server_cases:
  "server (handle_history py history st now symbol resolution f t) = st \<or>
   (\<exists>hist unsorted. build_bars py f t hist = Inr unsorted \<and>
      server (handle_history py history st now symbol resolution f t) =
        st\<lparr>data_cache :=
             (data_cache st)
               (cache_key symbol resolution f t \<mapsto> ok_response (sort_key bar_time unsorted)),
           cache_expiry := (cache_expiry st)(cache_key symbol resolution f t \<mapsto> now + 300)\<rparr>)"
proof (cases "fromtimestamp py (of_int f) = None \<and> fromtimestamp py (of_int t) = None \<and>
    cached st (cache_key symbol resolution f t) now = None")
  case False
  then have "server (handle_history py history st now symbol resolution f t) = st"
    by (auto simp: handle_history_def failed_def split: option.splits)
  then show ?thesis ..
next
  case True
  then have m: "fromtimestamp py (of_int f) = None" "fromtimestamp py (of_int t) = None"
    "cached st (cache_key symbol resolution f t) now = None" by simp_all
  show ?thesis
  proof (cases "history symbol (fst (period_interval resolution)) (snd (period_interval resolution))")
    case (Inl e)
    then show ?thesis unfolding handle_history_miss [OF m] by (simp add: failed_def)
  next
    case (Inr hist)
    show ?thesis
    proof (cases "build_bars py f t hist")
      case (Inl e)
      with Inr show ?thesis unfolding handle_history_miss [OF m] by (simp add: failed_def)
    next
      case b: (Inr unsorted)
      show ?thesis
      proof (cases "hist = []")
        case True
        with Inr show ?thesis unfolding handle_history_miss [OF m] by simp
      next
        case False
        with Inr b have "server (handle_history py history st now symbol resolution f t) =
          st\<lparr>data_cache :=
               (data_cache st)
                 (cache_key symbol resolution f t \<mapsto> ok_response (sort_key bar_time unsorted)),
             cache_expiry := (cache_expiry st)(cache_key symbol resolution f t \<mapsto> now + 300)\<rparr>"
          unfolding handle_history_miss [OF m] by (simp add: failed_def split: option.split)
        with b show ?thesis by blast
      qed
    qed
  qed
qed

text \<open>The success responses a request can send: the cached one, or a fresh one.\<close>

lemma ok_reply_cases:
  assumes "reply (handle_history py history st now symbol resolution f t) = (code, v)"
    and "is_ok v"
  shows "cached st (cache_key symbol resolution f t) now = Some v \<or>
    (\<exists>hist unsorted.
       history symbol (fst (period_interval resolution)) (snd (period_interval resolution)) =
         Inr hist \<and>
       build_bars py f t hist = Inr unsorted \<and> v = ok_response (sort_key bar_time unsorted) \<and>
       upstream (handle_history py history st now symbol resolution f t) \<noteq> [])"
proof (cases "fromtimestamp py (of_int f) = None \<and> fromtimestamp py (of_int t) = None")
  case False
  with assms show ?thesis
    by (auto simp: handle_history_def failed_def send_json_response_def split: option.splits)
next
  case True
  then have m: "fromtimestamp py (of_int f) = None" "fromtimestamp py (of_int t) = None"
    by simp_all
  show ?thesis
  proof (cases "cached st (cache_key symbol resolution f t) now")
    case (Some data)
    with m assms(1) have "v = data"
      by (auto simp: handle_history_def send_json_response_def)
    with Some show ?thesis by simp
  next
    case None
    note h = handle_history_miss [OF m None]
    show ?thesis
    proof (cases "history symbol (fst (period_interval resolution))
        (snd (period_interval resolution))")
      case (Inl e)
      with assms show ?thesis unfolding h by (auto simp: failed_def send_json_response_def)
    next
      case (Inr hist)
      show ?thesis
      proof (cases "build_bars py f t hist")
        case (Inl e)
        with Inr assms show ?thesis unfolding h
          by (auto simp: failed_def send_json_response_def split: if_splits)
      next
        case b: (Inr unsorted)
        with Inr assms have "v = ok_response (sort_key bar_time unsorted) \<and>
          upstream (handle_history py history st now symbol resolution f t) \<noteq> []"
          unfolding h
          by (auto simp: failed_def send_json_response_def split: if_splits option.splits)
        with Inr b show ?thesis by blast
      qed
    qed
  qed
qed

text \<open>The invariant of the cache.\<close>

lemma reachable_cache:
  "reachable py st \<Longrightarrow> data_cache st key = Some v \<Longrightarrow>
     is_ok v \<and> columns_agree v \<and> sorted (times v) \<and>
     (\<forall>s r f t. key = cache_key s r f t \<longrightarrow> in_window f t (times v))"
proof (induction arbitrary: key v rule: reachable.induct)
  case start
  then show ?case by (simp add: initial_state_def)
next
  case (request st history now symbol resolution f t)
  let ?H = "handle_history py history st now symbol resolution f t"
  from server_cases [of py history st now symbol resolution f t]
  show ?case
  proof
    assume "server ?H = st"
    with request show ?thesis by simp
  next
    assume "\<exists>hist unsorted. build_bars py f t hist = Inr unsorted \<and>
      server ?H =
        st\<lparr>data_cache :=
             (data_cache st)
               (cache_key symbol resolution f t \<mapsto> ok_response (sort_key bar_time unsorted)),
           cache_expiry := (cache_expiry st)(cache_key symbol resolution f t \<mapsto> now + 300)\<rparr>"
    then obtain hist unsorted where b: "build_bars py f t hist = Inr unsorted"
      and s: "server ?H =
        st\<lparr>data_cache :=
             (data_cache st)
               (cache_key symbol resolution f t \<mapsto> ok_response (sort_key bar_time unsorted)),
           cache_expiry := (cache_expiry st)(cache_key symbol resolution f t \<mapsto> now + 300)\<rparr>"
      by blast
    show ?thesis
    proof (cases "key = cache_key symbol resolution f t")
      case False
      with request.prems s have "data_cache st key = Some v" by simp
      then show ?thesis by (rule request.IH)
    next
      case True
      with request.prems s have v: "v = ok_response (sort_key bar_time unsorted)" by simp
      have tv: "times v = kept_times f t hist" unfolding v using b by (rule fresh_times)
      have "in_window f' t' (times v)" if "key = cache_key s' r' f' t'" for s' r' f' t'
      proof -
        from that True have "cache_key symbol resolution f t = cache_key s' r' f' t'" by simp
        then have "f = f' \<and> t = t'" by (rule cache_key_from_to)
        then show ?thesis using kept_times_in_window [of f t hist] tv by simp
      qed
      then show ?thesis
        using fresh_is_ok [of "sort_key bar_time unsorted"] kept_times_sorted [of f t hist] tv v
        by simp
    qed
  qed
qed

lemma hit_no_upstream:
  "cached st (cache_key symbol resolution f t) now = Some data \<Longrightarrow>
     upstream (handle_history py history st now symbol resolution f t) = []"
  by (simp add: handle_history_def failed_def split: option.splits)

text \<open>
  C10: in every state the server can reach, every value stored in the cache is a success
  response: no \<^verbatim>\<open>no_data\<close> and no \<^verbatim>\<open>error\<close> response is ever stored, so
  a cache hit yields a success response.
\<close>

theorem cache_holds_success_only:
  "reachable py st \<Longrightarrow> data_cache st key = Some v \<or> cached st key now = Some v \<Longrightarrow> is_ok v"
proof -
  assume r: "reachable py st" and "data_cache st key = Some v \<or> cached st key now = Some v"
  then have "data_cache st key = Some v" using cached_Some by blast
  with r show ?thesis using reachable_cache by blast
qed

theorem cache_holds_success_only_witness:
  "reachable python0
     (server (handle_history python0 three_rows initial_state 1000 ''AAPL'' ''1D'' 0 100)) \<and>
   data_cache (server (handle_history python0 three_rows initial_state 1000 ''AAPL'' ''1D'' 0 100))
     ''AAPL_1D_0_100'' =
     Some (Ok [20000, 50000] [5 / 2, 253 / 25] [5 / 2, 253 / 25] [5 / 2, 253 / 25]
             [5 / 2, 253 / 25] [0, 7]) \<and>
   is_ok (Ok [20000, 50000] [5 / 2, 253 / 25] [5 / 2, 253 / 25] [5 / 2, 253 / 25]
            [5 / 2, 253 / 25] [0, 7 :: int] :: rat response)"
proof -
  have r: "reachable python0
     (server (handle_history python0 three_rows initial_state 1000 ''AAPL'' ''1D'' 0 100))"
    by (rule reachable.request) (rule reachable.start)
  have d: "data_cache
     (server (handle_history python0 three_rows initial_state 1000 ''AAPL'' ''1D'' 0 100))
     ''AAPL_1D_0_100'' =
     Some (Ok [20000, 50000] [5 / 2, 253 / 25] [5 / 2, 253 / 25] [5 / 2, 253 / 25]
             [5 / 2, 253 / 25] [0, 7])"
    by code_simp
  from cache_holds_success_only [OF r, of "''AAPL_1D_0_100''" _ 0] d r show ?thesis by blast
qed

text \<open>
  C2: in every success response to a history request, served fresh or from the cache, the
  arrays of opens, highs, lows, closes and volumes have the length of the array of times,
  and the times are in non-decreasing order.
\<close>

theorem success_columns_sorted:
  "reachable py st \<Longrightarrow>
   reply (handle_history py history st now symbol resolution from_ts to_ts) =
     (code, Ok ts os hs ls cs vs) \<Longrightarrow>
   length os = length ts \<and> length hs = length ts \<and> length ls = length ts \<and>
   length cs = length ts \<and> length vs = length ts \<and> sorted ts"
proof -
  assume r: "reachable py st"
    and ok: "reply (handle_history py history st now symbol resolution from_ts to_ts) =
      (code, Ok ts os hs ls cs vs)"
  have "columns_agree (Ok ts os hs ls cs vs) \<and> sorted (times (Ok ts os hs ls cs vs))"
    using ok_reply_cases [OF ok is_ok.simps(1) [THEN iffD2, OF TrueI]]
  proof (elim disjE exE conjE)
    assume "cached st (cache_key symbol resolution from_ts to_ts) now =
      Some (Ok ts os hs ls cs vs)"
    then have "data_cache st (cache_key symbol resolution from_ts to_ts) =
      Some (Ok ts os hs ls cs vs)" by (rule cached_Some)
    with r show ?thesis using reachable_cache by blast
  next
    fix hist unsorted
    assume b: "build_bars py from_ts to_ts hist = Inr unsorted"
      and v: "Ok ts os hs ls cs vs = ok_response (sort_key bar_time unsorted)"
    from fresh_times [OF b] kept_times_sorted [of from_ts to_ts hist]
    have "sorted (times (ok_response (sort_key bar_time unsorted)))" by simp
    with fresh_is_ok [of "sort_key bar_time unsorted"] v show ?thesis by simp
  qed
  then show ?thesis by simp
qed

theorem success_columns_sorted_witness:
  "reachable python0 initial_state \<and>
   reply (handle_history python0 three_rows initial_state 1000 ''AAPL'' ''1D'' 0 100) =
     (200, Ok [20000, 50000] [5 / 2, 253 / 25] [5 / 2, 253 / 25] [5 / 2, 253 / 25]
             [5 / 2, 253 / 25] [0, 7]) \<and>
   length [5 / 2, 253 / 25 :: rat] = length [20000, 50000 :: int] \<and>
   length [0, 7 :: int] = length [20000, 50000 :: int] \<and> sorted [20000, 50000 :: int]"
proof -
  have e: "reply (handle_history python0 three_rows initial_state 1000 ''AAPL'' ''1D'' 0 100) =
     (200, Ok [20000, 50000] [5 / 2, 253 / 25] [5 / 2, 253 / 25] [5 / 2, 253 / 25]
             [5 / 2, 253 / 25] [0, 7])"
    by code_simp
  from success_columns_sorted [OF reachable.start e] e reachable.start [of python0]
  show ?thesis by blast
qed

text \<open>
  C1: in every success response to a history request, served fresh or from the cache, each
  time is a whole number of seconds (times 1000) that lies in
  \<^verbatim>\<open>[from_ts, to_ts]\<close>; and when the response is built from the provider's rows, its
  times are exactly those of the rows whose second timestamp lies in that interval, in
  order: every other row is discarded.
\<close>

theorem success_times_in_range:
  "reachable py st \<Longrightarrow>
   reply (handle_history py history st now symbol resolution from_ts to_ts) =
     (code, Ok ts os hs ls cs vs) \<Longrightarrow>
   (\<forall>ms\<in>set ts. ms mod 1000 = 0 \<and> from_ts \<le> ms div 1000 \<and> ms div 1000 \<le> to_ts) \<and>
   (upstream (handle_history py history st now symbol resolution from_ts to_ts) = [] \<or>
    (\<exists>hist.
       history symbol (fst (period_interval resolution)) (snd (period_interval resolution)) =
         Inr hist \<and>
       ts = sort (map (\<lambda>r. py_int (index_timestamp r) * 1000)
                   (filter (\<lambda>r. from_ts \<le> py_int (index_timestamp r) \<and>
                                 py_int (index_timestamp r) \<le> to_ts) hist))))"
proof -
  assume r: "reachable py st"
    and ok: "reply (handle_history py history st now symbol resolution from_ts to_ts) =
      (code, Ok ts os hs ls cs vs)"
  have "in_window from_ts to_ts ts \<and>
    (upstream (handle_history py history st now symbol resolution from_ts to_ts) = [] \<or>
     (\<exists>hist.
        history symbol (fst (period_interval resolution)) (snd (period_interval resolution)) =
          Inr hist \<and> ts = kept_times from_ts to_ts hist))"
    using ok_reply_cases [OF ok is_ok.simps(1) [THEN iffD2, OF TrueI]]
  proof (elim disjE exE conjE)
    assume c: "cached st (cache_key symbol resolution from_ts to_ts) now =
      Some (Ok ts os hs ls cs vs)"
    then have "data_cache st (cache_key symbol resolution from_ts to_ts) =
      Some (Ok ts os hs ls cs vs)" by (rule cached_Some)
    from reachable_cache [OF r this] have "in_window from_ts to_ts ts" by simp
    with hit_no_upstream [OF c] show ?thesis by simp
  next
    fix hist unsorted
    assume h: "history symbol (fst (period_interval resolution))
        (snd (period_interval resolution)) = Inr hist"
      and b: "build_bars py from_ts to_ts hist = Inr unsorted"
      and v: "Ok ts os hs ls cs vs = ok_response (sort_key bar_time unsorted)"
    from fresh_times [OF b] v have "ts = kept_times from_ts to_ts hist"
      by (metis times.simps(1))
    with h kept_times_in_window [of from_ts to_ts hist] show ?thesis by auto
  qed
  then show ?thesis
    by (simp add: in_window_def kept_times_def list_all_iff)
qed

theorem success_times_in_range_witness:
  "reachable python0 initial_state \<and>
   reply (handle_history python0 three_rows initial_state 1000 ''AAPL'' ''1D'' 0 100) =
     (200, Ok [20000, 50000] [5 / 2, 253 / 25] [5 / 2, 253 / 25] [5 / 2, 253 / 25]
             [5 / 2, 253 / 25] [0, 7]) \<and>
   list_all (\<lambda>ms. ms mod 1000 = 0 \<and> 0 \<le> ms div 1000 \<and> ms div 1000 \<le> 100)
     [20000, 50000 :: int]"
proof -
  have e: "reply (handle_history python0 three_rows initial_state 1000 ''AAPL'' ''1D'' 0 100) =
     (200, Ok [20000, 50000] [5 / 2, 253 / 25] [5 / 2, 253 / 25] [5 / 2, 253 / 25]
             [5 / 2, 253 / 25] [0, 7])"
    by code_simp
  from success_times_in_range [OF reachable.start e]
  have "\<forall>ms\<in>set [20000, 50000 :: int].
      ms mod 1000 = 0 \<and> 0 \<le> ms div 1000 \<and> ms div 1000 \<le> 100"
    by blast
  with e reachable.start [of python0] show ?thesis
    by (simp only: list_all_iff simp_thms)
qed

lemma cached_iff:
  "cached st key now = Some v \<longleftrightarrow>
     data_cache st key = Some v \<and>
     now < (case cache_expiry st key of None \<Rightarrow> 0 | Some e \<Rightarrow> e)"
  by (simp add: cached_def split: option.splits)

lemma reply_upstream_without_entry:
  assumes "cached st (cache_key symbol resolution f t) now = None"
  shows "reply (handle_history py history st now symbol resolution f t) =
         reply (handle_history py history
                  (st\<lparr>data_cache := (data_cache st)(cache_key symbol resolution f t := None),
                      cache_expiry := (cache_expiry st)(cache_key symbol resolution f t := None)\<rparr>)
                  now symbol resolution f t) \<and>
         upstream (handle_history py history st now symbol resolution f t) =
         upstream (handle_history py history
                  (st\<lparr>data_cache := (data_cache st)(cache_key symbol resolution f t := None),
                      cache_expiry := (cache_expiry st)(cache_key symbol resolution f t := None)\<rparr>)
                  now symbol resolution f t)"
proof -
  let ?st' = "st\<lparr>data_cache := (data_cache st)(cache_key symbol resolution f t := None),
                  cache_expiry := (cache_expiry st)(cache_key symbol resolution f t := None)\<rparr>"
  have n: "cached ?st' (cache_key symbol resolution f t) now = None"
    by (simp add: cached_def)
  show ?thesis
  proof (cases "fromtimestamp py (of_int f) = None \<and> fromtimestamp py (of_int t) = None")
    case False
    then show ?thesis
      by (auto simp: handle_history_def failed_def split: option.splits)
  next
    case True
    then have m: "fromtimestamp py (of_int f) = None" "fromtimestamp py (of_int t) = None"
      by simp_all
    show ?thesis
      unfolding handle_history_miss [OF m assms] handle_history_miss [OF m n]
      by (simp add: failed_def split: sum.split option.split)
  qed
qed

lemma dictionaries_grow:
  "dom (data_cache st) \<subseteq>
     dom (data_cache (server (handle_history py history st now symbol resolution f t))) \<and>
   dom (cache_expiry st) \<subseteq>
     dom (cache_expiry (server (handle_history py history st now symbol resolution f t)))"
  using server_cases [of py history st now symbol resolution f t] by auto

lemma ok_reply_stored:
  assumes "reply (handle_history py history st now symbol resolution f t) = (code, v)"
    and "is_ok v"
  shows "fromtimestamp py (of_int f) = None \<and> fromtimestamp py (of_int t) = None \<and>
    data_cache (server (handle_history py history st now symbol resolution f t))
      (cache_key symbol resolution f t) = Some v \<and>
    (upstream (handle_history py history st now symbol resolution f t) = [] \<or>
     cache_expiry (server (handle_history py history st now symbol resolution f t))
       (cache_key symbol resolution f t) = Some (now + 300))"
proof (cases "fromtimestamp py (of_int f) = None \<and> fromtimestamp py (of_int t) = None")
  case False
  with assms show ?thesis
    by (auto simp: handle_history_def failed_def send_json_response_def split: option.splits)
next
  case True
  then have m: "fromtimestamp py (of_int f) = None" "fromtimestamp py (of_int t) = None"
    by simp_all
  show ?thesis
  proof (cases "cached st (cache_key symbol resolution f t) now")
    case (Some data)
    with m assms(1) have "v = data" and
      "server (handle_history py history st now symbol resolution f t) = st" and
      "upstream (handle_history py history st now symbol resolution f t) = []"
      by (auto simp: handle_history_def send_json_response_def)
    with Some m show ?thesis by (simp add: cached_Some)
  next
    case None
    note h = handle_history_miss [OF m None]
    show ?thesis
    proof (cases "history symbol (fst (period_interval resolution))
        (snd (period_interval resolution))")
      case (Inl e)
      with assms show ?thesis unfolding h by (auto simp: failed_def send_json_response_def)
    next
      case (Inr hist)
      show ?thesis
      proof (cases "build_bars py f t hist")
        case (Inl e)
        with Inr assms show ?thesis unfolding h
          by (auto simp: failed_def send_json_response_def split: if_splits)
      next
        case b: (Inr unsorted)
        with Inr assms m show ?thesis unfolding h
          by (auto simp: failed_def send_json_response_def split: if_splits option.splits)
      qed
    qed
  qed
qed

text \<open>
  C7: the cache test gives the stored value exactly when there is one and the clock is
  strictly before its expiry; otherwise the request runs as if the key had no entry (same
  response, same calls to the provider); and no request removes an entry from either
  dictionary, so an expired entry stays in the map until a later success overwrites it.
\<close>

theorem expired_entry_bypassed:
  "(cached st key now = Some v \<longleftrightarrow>
      data_cache st key = Some v \<and>
      now < (case cache_expiry st key of None \<Rightarrow> 0 | Some e \<Rightarrow> e)) \<and>
   (cached st (cache_key symbol resolution from_ts to_ts) now = None \<longrightarrow>
      reply (handle_history py history st now symbol resolution from_ts to_ts) =
      reply (handle_history py history
               (st\<lparr>data_cache :=
                     (data_cache st)(cache_key symbol resolution from_ts to_ts := None),
                   cache_expiry :=
                     (cache_expiry st)(cache_key symbol resolution from_ts to_ts := None)\<rparr>)
               now symbol resolution from_ts to_ts) \<and>
      upstream (handle_history py history st now symbol resolution from_ts to_ts) =
      upstream (handle_history py history
               (st\<lparr>data_cache :=
                     (data_cache st)(cache_key symbol resolution from_ts to_ts := None),
                   cache_expiry :=
                     (cache_expiry st)(cache_key symbol resolution from_ts to_ts := None)\<rparr>)
               now symbol resolution from_ts to_ts)) \<and>
   dom (data_cache st) \<subseteq>
     dom (data_cache (server (handle_history py history st now symbol resolution from_ts to_ts))) \<and>
   dom (cache_expiry st) \<subseteq>
     dom (cache_expiry (server (handle_history py history st now symbol resolution from_ts to_ts)))"
  using cached_iff [of st key now v]
    reply_upstream_without_entry [of st symbol resolution from_ts to_ts now py history]
    dictionaries_grow [of st py history now symbol resolution from_ts to_ts]
  by blast

theorem expired_entry_bypassed_witness:
  "cached (server (handle_history python0 three_rows initial_state 1000 ''AAPL'' ''1D'' 0 100))
     (cache_key ''AAPL'' ''1D'' 0 100) 1300 = None \<and>
   cached (server (handle_history python0 three_rows initial_state 1000 ''AAPL'' ''1D'' 0 100))
     (cache_key ''AAPL'' ''1D'' 0 100) 1299 =
     Some (Ok [20000, 50000] [5 / 2, 253 / 25] [5 / 2, 253 / 25] [5 / 2, 253 / 25]
             [5 / 2, 253 / 25] [0, 7]) \<and>
   reply (handle_history python0 no_rows
            (server (handle_history python0 three_rows initial_state 1000 ''AAPL'' ''1D'' 0 100))
            1300 ''AAPL'' ''1D'' 0 100) = (200, No_data) \<and>
   data_cache
     (server (handle_history python0 no_rows
        (server (handle_history python0 three_rows initial_state 1000 ''AAPL'' ''1D'' 0 100))
        1300 ''AAPL'' ''1D'' 0 100))
     (cache_key ''AAPL'' ''1D'' 0 100) =
     Some (Ok [20000, 50000] [5 / 2, 253 / 25] [5 / 2, 253 / 25] [5 / 2, 253 / 25]
             [5 / 2, 253 / 25] [0, 7])"
proof -
  let ?st = "server (handle_history python0 three_rows initial_state 1000 ''AAPL'' ''1D'' 0 100)"
  let ?K = "cache_key ''AAPL'' ''1D'' 0 100"
  have expired: "cached ?st ?K 1300 = None"
    by code_simp
  have live: "cached ?st ?K 1299 =
     Some (Ok [20000, 50000] [5 / 2, 253 / 25] [5 / 2, 253 / 25] [5 / 2, 253 / 25]
             [5 / 2, 253 / 25] [0, 7])"
    by code_simp
  have absent: "reply (handle_history python0 no_rows
      (?st\<lparr>data_cache := (data_cache ?st)(?K := None),
           cache_expiry := (cache_expiry ?st)(?K := None)\<rparr>)
      1300 ''AAPL'' ''1D'' 0 100) = (200, No_data)"
    by code_simp
  have kept: "data_cache
     (server (handle_history python0 no_rows ?st 1300 ''AAPL'' ''1D'' 0 100)) ?K =
     Some (Ok [20000, 50000] [5 / 2, 253 / 25] [5 / 2, 253 / 25] [5 / 2, 253 / 25]
             [5 / 2, 253 / 25] [0, 7])"
    by code_simp
  from expired_entry_bypassed
    [of ?st ?K 1300 No_data "''AAPL''" "''1D''" 0 100 python0 no_rows] expired absent
  have "reply (handle_history python0 no_rows ?st 1300 ''AAPL'' ''1D'' 0 100) = (200, No_data)"
    by simp
  with expired live kept show ?thesis by simp
qed

text \<open>
  C6 (as stated: any two equal requests within 300 seconds give one payload and at most one
  call to the provider). A \<^verbatim>\<open>no_data\<close> response is returned before anything is
  stored, so the repeat one second later asks the provider again and may get a different
  answer: two calls, two payloads.
\<close>

theorem repeat_after_no_data:
  "reply (handle_history python0 no_rows initial_state 1000 ''AAPL'' ''1D'' 0 100) =
     (200, No_data) \<and>
   reply (handle_history python0 three_rows
            (server (handle_history python0 no_rows initial_state 1000 ''AAPL'' ''1D'' 0 100))
            1001 ''AAPL'' ''1D'' 0 100) =
     (200, Ok [20000, 50000] [5 / 2, 253 / 25] [5 / 2, 253 / 25] [5 / 2, 253 / 25]
             [5 / 2, 253 / 25] [0, 7]) \<and>
   upstream (handle_history python0 no_rows initial_state 1000 ''AAPL'' ''1D'' 0 100) @
   upstream (handle_history python0 three_rows
            (server (handle_history python0 no_rows initial_state 1000 ''AAPL'' ''1D'' 0 100))
            1001 ''AAPL'' ''1D'' 0 100) =
     [(''AAPL'', ''2y'', ''1d''), (''AAPL'', ''2y'', ''1d'')]"
  by code_simp

text \<open>
  C6 (amended: the first request returns a success response, and the second arrives
  strictly before the expiry stored for the key): the second request returns the payload of
  the first and does not ask the provider, so the provider is asked at most once across
  the two; after the first request the cache holds its response under the key, and when
  the first request asked the provider, the stored expiry is its clock reading plus 300,
  whatever entry the key had before.
\<close>

theorem repeat_before_expiry:
  "reply (handle_history py history1 st now1 symbol resolution from_ts to_ts) =
     (code, Ok ts os hs ls cs vs) \<Longrightarrow>
   now2 < (case cache_expiry
                  (server (handle_history py history1 st now1 symbol resolution from_ts to_ts))
                  (cache_key symbol resolution from_ts to_ts) of
             None \<Rightarrow> 0 | Some e \<Rightarrow> e) \<Longrightarrow>
   reply (handle_history py history2
            (server (handle_history py history1 st now1 symbol resolution from_ts to_ts))
            now2 symbol resolution from_ts to_ts) =
     reply (handle_history py history1 st now1 symbol resolution from_ts to_ts) \<and>
   upstream (handle_history py history2
            (server (handle_history py history1 st now1 symbol resolution from_ts to_ts))
            now2 symbol resolution from_ts to_ts) = [] \<and>
   length (upstream (handle_history py history1 st now1 symbol resolution from_ts to_ts)) \<le> 1 \<and>
   data_cache (server (handle_history py history1 st now1 symbol resolution from_ts to_ts))
     (cache_key symbol resolution from_ts to_ts) = Some (Ok ts os hs ls cs vs) \<and>
   (upstream (handle_history py history1 st now1 symbol resolution from_ts to_ts) = [] \<or>
    cache_expiry (server (handle_history py history1 st now1 symbol resolution from_ts to_ts))
      (cache_key symbol resolution from_ts to_ts) = Some (now1 + 300))"
proof -
  let ?H1 = "handle_history py history1 st now1 symbol resolution from_ts to_ts"
  let ?K = "cache_key symbol resolution from_ts to_ts"
  let ?v = "Ok ts os hs ls cs vs"
  assume ok: "reply ?H1 = (code, ?v)"
    and fresh: "now2 < (case cache_expiry (server ?H1) ?K of None \<Rightarrow> 0 | Some e \<Rightarrow> e)"
  have okv: "is_ok ?v" by simp
  note s = ok_reply_stored [OF ok okv]
  from s have m: "fromtimestamp py (of_int from_ts) = None"
    "fromtimestamp py (of_int to_ts) = None" and d: "data_cache (server ?H1) ?K = Some ?v"
    by simp_all
  from d fresh have c: "cached (server ?H1) ?K now2 = Some ?v"
    by (simp add: cached_iff)
  from reply_status [of py history1 st now1 symbol resolution from_ts to_ts] ok
  have code: "code = 200" by simp
  from m c have "reply (handle_history py history2 (server ?H1) now2 symbol resolution
      from_ts to_ts) = (200, ?v)"
    by (simp add: handle_history_def send_json_response_def)
  moreover have "upstream (handle_history py history2 (server ?H1) now2 symbol resolution
      from_ts to_ts) = []"
    using c by (rule hit_no_upstream)
  moreover have "length (upstream ?H1) \<le> 1"
    using upstream_cases [of py history1 st now1 symbol resolution from_ts to_ts] by auto
  ultimately show ?thesis using ok code s by simp
qed

theorem repeat_before_expiry_witness:
  "reply (handle_history python0 three_rows initial_state 1000 ''AAPL'' ''1D'' 0 100) =
     (200, Ok [20000, 50000] [5 / 2, 253 / 25] [5 / 2, 253 / 25] [5 / 2, 253 / 25]
             [5 / 2, 253 / 25] [0, 7]) \<and>
   cache_expiry
     (server (handle_history python0 three_rows initial_state 1000 ''AAPL'' ''1D'' 0 100))
     (cache_key ''AAPL'' ''1D'' 0 100) = Some 1300 \<and>
   (1299 :: rat) < 1300 \<and>
   reply (handle_history python0 no_rows
            (server (handle_history python0 three_rows initial_state 1000 ''AAPL'' ''1D'' 0 100))
            1299 ''AAPL'' ''1D'' 0 100) =
     (200, Ok [20000, 50000] [5 / 2, 253 / 25] [5 / 2, 253 / 25] [5 / 2, 253 / 25]
             [5 / 2, 253 / 25] [0, 7]) \<and>
   upstream (handle_history python0 no_rows
            (server (handle_history python0 three_rows initial_state 1000 ''AAPL'' ''1D'' 0 100))
            1299 ''AAPL'' ''1D'' 0 100) = []"
proof -
  let ?H1 = "handle_history python0 three_rows initial_state 1000 ''AAPL'' ''1D'' 0 100"
  have ok: "reply ?H1 =
     (200, Ok [20000, 50000] [5 / 2, 253 / 25] [5 / 2, 253 / 25] [5 / 2, 253 / 25]
             [5 / 2, 253 / 25] [0, 7])"
    by code_simp
  have e: "cache_expiry (server ?H1) (cache_key ''AAPL'' ''1D'' 0 100) = Some 1300"
    by code_simp
  then have fresh: "1299 < (case cache_expiry (server ?H1) (cache_key ''AAPL'' ''1D'' 0 100) of
      None \<Rightarrow> 0 | Some e \<Rightarrow> e)"
    by simp
  from repeat_before_expiry [OF ok fresh, of no_rows] ok e show ?thesis by simp
qed

end
